theory Spec2Isabelle
  imports Main "HOL-Library.AList"
begin

section \<open>Python values, exceptions and the outside world\<close>

text \<open>
  The values that \<open>json.load\<close>, \<open>yaml.safe_load\<close> and \<open>response.json()\<close> produce.
  A float is kept as mantissa and decimal exponent; no operation of the program looks
  inside a number.
\<close>

datatype pyval =
    PNone
  | PBool bool
  | PInt int
  | PFloat int int
  | PStr string
  | PList "pyval list"
  | PDict "(string \<times> pyval) list"

text \<open>
  An exception is kept with the text that \<open>str(e)\<close> gives, since the adapters turn a
  caught exception into exactly that text. \<open>Exception\<close> stands for any other exception
  that derives from \<open>Exception\<close>; \<open>BaseException\<close> for one that does not
  (\<open>KeyboardInterrupt\<close>, \<open>SystemExit\<close>, \<open>asyncio.CancelledError\<close>), which
  \<open>except Exception\<close> does not catch.
\<close>

datatype py_exn =
    KeyError string
  | IndexError string
  | TypeError string
  | Exception string
  | BaseException string

fun exn_str :: "py_exn \<Rightarrow> string" where
  "exn_str (KeyError s) = s"
| "exn_str (IndexError s) = s"
| "exn_str (TypeError s) = s"
| "exn_str (Exception s) = s"
| "exn_str (BaseException s) = s"

text \<open>\<open>isinstance(e, Exception)\<close>.\<close>

fun is_Exception :: "py_exn \<Rightarrow> bool" where
  "is_Exception (BaseException s) = False"
| "is_Exception e = True"

text \<open>
  What a call into a library or onto the network does: it returns, it raises an
  exception that derives from \<open>Exception\<close>, or it is interrupted by one that does not.
\<close>

datatype 'a outcome = Returns 'a | Raises string | Interrupts string

fun of_outcome :: "'a outcome \<Rightarrow> py_exn + 'a" where
  "of_outcome (Returns a) = Inr a"
| "of_outcome (Raises e) = Inl (Exception e)"
| "of_outcome (Interrupts e) = Inl (BaseException e)"

definition quote :: "string \<Rightarrow> string" where
  "quote s = CHR 0x27 # s @ [CHR 0x27]"

definition nl :: string where
  "nl = [CHR 0x0A]"

definition not_subscriptable :: "string \<Rightarrow> py_exn" where
  "not_subscriptable ty = TypeError (quote ty @ '' object is not subscriptable'')"

text \<open>\<open>x[key]\<close> for a string key, as CPython evaluates it on each kind of value.\<close>

fun getitem_str :: "pyval \<Rightarrow> string \<Rightarrow> py_exn + pyval" where
  "getitem_str (PDict kvs) k =
     (case map_of kvs k of Some v \<Rightarrow> Inr v | None \<Rightarrow> Inl (KeyError (quote k)))"
| "getitem_str (PList xs) k = Inl (TypeError ''list indices must be integers or slices, not str'')"
| "getitem_str (PStr s) k = Inl (TypeError (''string indices must be integers, not '' @ quote ''str''))"
| "getitem_str PNone k = Inl (not_subscriptable ''NoneType'')"
| "getitem_str (PBool b) k = Inl (not_subscriptable ''bool'')"
| "getitem_str (PInt i) k = Inl (not_subscriptable ''int'')"
| "getitem_str (PFloat m e) k = Inl (not_subscriptable ''float'')"

text \<open>\<open>x[0]\<close>. A JSON object has string keys only, so \<open>0\<close> is never one of them.\<close>

fun getitem_0 :: "pyval \<Rightarrow> py_exn + pyval" where
  "getitem_0 (PList []) = Inl (IndexError ''list index out of range'')"
| "getitem_0 (PList (v # vs)) = Inr v"
| "getitem_0 (PStr []) = Inl (IndexError ''string index out of range'')"
| "getitem_0 (PStr (c # cs)) = Inr (PStr [c])"
| "getitem_0 (PDict kvs) = Inl (KeyError ''0'')"
| "getitem_0 PNone = Inl (not_subscriptable ''NoneType'')"
| "getitem_0 (PBool b) = Inl (not_subscriptable ''bool'')"
| "getitem_0 (PInt i) = Inl (not_subscriptable ''int'')"
| "getitem_0 (PFloat m e) = Inl (not_subscriptable ''float'')"

text \<open>
  \<open>xs[s:]\<close>: a negative start counts from the end and is clamped at the front, a start
  past the end gives the empty list.
\<close>

definition slice_from :: "int \<Rightarrow> 'a list \<Rightarrow> 'a list" where
  "slice_from s xs =
     (let n = int (length xs);
          s' = (if s < 0 then max (s + n) 0 else min s n)
      in drop (nat s') xs)"

text \<open>\<open>sep.join(parts)\<close>.\<close>

fun join :: "string \<Rightarrow> string list \<Rightarrow> string" where
  "join sep [] = []"
| "join sep [p] = p"
| "join sep (p # q # ps) = p @ sep @ join sep (q # ps)"

section \<open>Messages and results\<close>

text \<open>
  A stored message is the dictionary \<open>add_message\<close> builds: the keys \<open>role\<close>,
  \<open>content\<close>, \<open>provider\<close> and \<open>timestamp\<close>. The thread files are written by
  \<open>save_history\<close> only, so every stored message has this shape.
\<close>

record message =
  msg_role :: string
  msg_content :: pyval
  msg_provider :: "string option"
  msg_timestamp :: string

text \<open>
  The dictionary an adapter returns. A key the dictionary does not have is \<open>None\<close> here;
  \<open>error\<close> is either \<open>True\<close> or absent in the source, absent is \<open>False\<close>.
\<close>

record response =
  content :: pyval
  provider :: string
  model :: "pyval option"
  usage :: "pyval option"
  error :: bool

text \<open>
  What \<open>DeepThinkingBrain.generate_response\<close> returns: an adapter's dictionary, or the
  one \<open>deep_thinking_mode\<close> builds, which has the key \<open>individual_responses\<close> too.
\<close>

record reply = response +
  individual_responses :: "(string \<times> response) list option"

definition single :: "response \<Rightarrow> reply" where
  "single r = response.extend r \<lparr>individual_responses = None\<rparr>"

section \<open>Configuration and the environment\<close>

text \<open>
  \<open>Config\<close>: the dictionary read from \<open>config.yaml\<close>, the Mistral key from the
  environment and the Anthropic client, which is \<open>None\<close> without a key (the client is
  kept as the key it was made with).
\<close>

record Config =
  config :: "string \<rightharpoonup> pyval"
  mistral_api_key :: "string option"
  anthropic_client :: "string option"

record http_request =
  req_url :: string
  req_authorization :: string
  req_model :: pyval
  req_messages :: "(string \<times> pyval) list"
  req_max_tokens :: pyval
  req_temperature :: pyval
  req_top_p :: pyval
  req_stream :: bool
  req_timeout :: int

text \<open>
  The reply to the request: \<open>resp_json\<close> is what \<open>response.json()\<close> does, the parsed
  body or the text of the exception it raises for a body that is not JSON.
\<close>

record http_response =
  status_code :: int
  resp_text :: string
  resp_json :: "string + pyval"

record claude_request =
  creq_model :: string
  creq_max_tokens :: pyval
  creq_temperature :: pyval
  creq_messages :: "(string \<times> pyval) list"

text \<open>
  The \<open>Message\<close> that \<open>messages.create\<close> of the client returns: the texts of its
  content blocks and the token counts.
\<close>

record claude_response =
  blocks :: "string list"
  token_usage :: "(int \<times> int) option"

text \<open>
  Everything outside the repository, over a state \<open>'w\<close> of the outside world that each
  call may change: the three network calls, the clock, the console, and the two library
  functions that turn values into text. \<open>print_panel name content\<close> is the pair of
  \<open>console.print\<close> calls that shows one backend's answer in \<open>deep_thinking_mode\<close>;
  \<open>display_response\<close>, which only renders, stands for the method of that name.
\<close>

record 'w env =
  requests_post :: "http_request \<Rightarrow> 'w \<Rightarrow> http_response outcome \<times> 'w"
  generate_content_async :: "string \<Rightarrow> 'w \<Rightarrow> string outcome \<times> 'w"
  messages_create :: "claude_request \<Rightarrow> 'w \<Rightarrow> claude_response outcome \<times> 'w"
  now_isoformat :: "'w \<Rightarrow> string \<times> 'w"
  print_panel :: "string \<Rightarrow> pyval \<Rightarrow> 'w \<Rightarrow> unit outcome \<times> 'w"
  display_response :: "reply \<Rightarrow> 'w \<Rightarrow> unit outcome \<times> 'w"
  json_dumps :: "(string \<times> response) list \<Rightarrow> string"
  str_of :: "pyval \<Rightarrow> string"

text \<open>\<open>f"{v}"\<close>: a string is inserted as it is, any other value through \<open>str\<close>.\<close>

definition format_value :: "'w env \<Rightarrow> pyval \<Rightarrow> string" where
  "format_value E v = (case v of PStr s \<Rightarrow> s | _ \<Rightarrow> str_of E v)"

section \<open>HistoryManager\<close>

text \<open>
  The thread files under the history directory, by thread name: \<open>None\<close> is a file
  that does not exist. Reading and writing a file are taken to succeed: a file that
  cannot be opened, parsed or written is outside this model.
\<close>

record HistoryManager =
  current_thread :: string
  files :: "string \<rightharpoonup> message list"

definition set_thread :: "HistoryManager \<Rightarrow> string \<Rightarrow> HistoryManager" where
  "set_thread h thread_name = h\<lparr>current_thread := thread_name\<rparr>"

definition load_history :: "HistoryManager \<Rightarrow> message list" where
  "load_history h = (case files h (current_thread h) of Some ms \<Rightarrow> ms | None \<Rightarrow> [])"

definition save_history :: "HistoryManager \<Rightarrow> message list \<Rightarrow> HistoryManager" where
  "save_history h history = h\<lparr>files := (files h)(current_thread h \<mapsto> history)\<rparr>"

definition add_message ::
  "'w env \<Rightarrow> string \<Rightarrow> pyval \<Rightarrow> string option \<Rightarrow> HistoryManager \<Rightarrow> 'w \<Rightarrow> HistoryManager \<times> 'w" where
  "add_message E role cont prov h w =
     (let history = load_history h;
          (ts, w') = now_isoformat E w;
          msg = \<lparr>msg_role = role, msg_content = cont, msg_provider = prov, msg_timestamp = ts\<rparr>
      in (save_history h (history @ [msg]), w'))"

definition get_context_messages :: "HistoryManager \<Rightarrow> int \<Rightarrow> message list" where
  "get_context_messages h max_messages =
     (let history = load_history h
      in if history \<noteq> [] then slice_from (- max_messages) history else [])"

section \<open>The adapters\<close>

datatype provider = MistralProvider | GeminiProvider | ClaudeProvider

definition truthy :: "string option \<Rightarrow> bool" where
  "truthy k = (case k of None \<Rightarrow> False | Some s \<Rightarrow> s \<noteq> [])"

text \<open>\<open>self.config.config[key]\<close>.\<close>

definition config_getitem :: "Config \<Rightarrow> string \<Rightarrow> py_exn + pyval" where
  "config_getitem c k = (case config c k of Some v \<Rightarrow> Inr v | None \<Rightarrow> Inl (KeyError (quote k)))"

text \<open>
  The loop of \<open>MistralProvider\<close> and \<open>ClaudeProvider\<close> over the context: a message
  is appended when its role is \<open>user\<close> or \<open>assistant\<close>.
\<close>

primrec add_context_messages :: "message list \<Rightarrow> (string \<times> pyval) list \<Rightarrow> (string \<times> pyval) list" where
  "add_context_messages [] messages = messages"
| "add_context_messages (msg # rest) messages =
     add_context_messages rest
       (if msg_role msg \<in> set [''user'', ''assistant'']
        then messages @ [(msg_role msg, msg_content msg)]
        else messages)"

text \<open>\<open>if context:\<close> is false for \<open>None\<close> and for the empty list.\<close>

definition prepare_messages :: "string \<Rightarrow> message list option \<Rightarrow> (string \<times> pyval) list" where
  "prepare_messages prompt context =
     (let messages = (case context of None \<Rightarrow> [] | Some ctx \<Rightarrow> add_context_messages ctx [])
      in messages @ [(''user'', PStr prompt)])"

definition error_response :: "string \<Rightarrow> string \<Rightarrow> response" where
  "error_response name txt =
     \<lparr>content = PStr txt, provider = name, model = None, usage = None, error = True\<rparr>"

text \<open>
  \<open>try: ... except Exception as e: return {'content': f"Error with {label}: {str(e)}", ...}\<close>
  around a body: an exception that derives from \<open>Exception\<close> becomes a result with the
  error flag, any other passes through to the caller.
\<close>

definition except_Exception ::
  "string \<Rightarrow> string \<Rightarrow> (py_exn + response) \<times> 'w \<Rightarrow> (py_exn + response) \<times> 'w" where
  "except_Exception name label x =
     (case x of
        (Inr r, w) \<Rightarrow> (Inr r, w)
      | (Inl e, w) \<Rightarrow>
          if is_Exception e
          then (Inr (error_response name (''Error with '' @ label @ '': '' @ exn_str e)), w)
          else (Inl e, w))"

text \<open>\<open>data['choices'][0]['message']['content']\<close>, left to right.\<close>

definition choice_content :: "pyval \<Rightarrow> py_exn + pyval" where
  "choice_content data =
     (case getitem_str data ''choices'' of Inl e \<Rightarrow> Inl e | Inr choices \<Rightarrow>
      case getitem_0 choices of Inl e \<Rightarrow> Inl e | Inr choice \<Rightarrow>
      case getitem_str choice ''message'' of Inl e \<Rightarrow> Inl e | Inr m \<Rightarrow>
      getitem_str m ''content'')"

text \<open>\<open>data.get('usage', {})\<close>, evaluated after the content, so on a dictionary.\<close>

definition get_usage :: "pyval \<Rightarrow> pyval" where
  "get_usage data =
     (case data of PDict kvs \<Rightarrow> (case map_of kvs ''usage'' of Some u \<Rightarrow> u | None \<Rightarrow> PDict [])
      | _ \<Rightarrow> PDict [])"

text \<open>The request \<open>MistralProvider\<close> builds; a key missing from the configuration raises.\<close>

definition mistral_payload :: "Config \<Rightarrow> string \<Rightarrow> message list option \<Rightarrow> py_exn + http_request" where
  "mistral_payload c prompt context =
     (let messages = prepare_messages prompt context in
      case config_getitem c ''default_model'' of Inl e \<Rightarrow> Inl e | Inr mdl \<Rightarrow>
      case config_getitem c ''max_tokens'' of Inl e \<Rightarrow> Inl e | Inr mt \<Rightarrow>
      case config_getitem c ''temperature'' of Inl e \<Rightarrow> Inl e | Inr temp \<Rightarrow>
      Inr \<lparr>req_url = ''https://api.mistral.ai/v1/chat/completions'',
           req_authorization = ''Bearer '' @ (case mistral_api_key c of Some k \<Rightarrow> k | None \<Rightarrow> []),
           req_model = mdl,
           req_messages = messages,
           req_max_tokens = mt,
           req_temperature = temp,
           req_top_p = (case config c ''top_p'' of Some v \<Rightarrow> v | None \<Rightarrow> PFloat 1 0),
           req_stream = False,
           req_timeout = 30\<rparr>)"

text \<open>
  What \<open>MistralProvider\<close> makes of the reply to its request. The content found in the
  body is returned as it is, whatever kind of value it is.
\<close>

definition mistral_result :: "'w env \<Rightarrow> pyval \<Rightarrow> http_response \<Rightarrow> py_exn + response" where
  "mistral_result E mdl resp =
     (if status_code resp = 200
      then (case resp_json resp of
              Inl e \<Rightarrow> Inl (Exception e)
            | Inr data \<Rightarrow>
                (case choice_content data of
                   Inl e \<Rightarrow> Inl e
                 | Inr c' \<Rightarrow>
                     Inr \<lparr>content = c', provider = ''mistral'', model = Some mdl,
                          usage = Some (get_usage data), error = False\<rparr>))
      else Inr (error_response ''mistral''
                  (''Mistral API error: '' @ str_of E (PInt (status_code resp))
                     @ '' - '' @ resp_text resp)))"

text \<open>
  The body of the \<open>try\<close> of \<open>MistralProvider.generate_response\<close>: \<open>Inl\<close> is an
  exception raised in it.
\<close>

definition Mistral_try ::
  "'w env \<Rightarrow> Config \<Rightarrow> string \<Rightarrow> message list option \<Rightarrow> 'w \<Rightarrow> (py_exn + response) \<times> 'w" where
  "Mistral_try E c prompt context w =
     (if \<not> truthy (mistral_api_key c)
      then (Inr (error_response ''mistral'' ''Mistral API key not configured''), w)
      else
        case mistral_payload c prompt context of
          Inl e \<Rightarrow> (Inl e, w)
        | Inr payload \<Rightarrow>
            let (r, w') = requests_post E payload w
            in case of_outcome r of
                 Inl e \<Rightarrow> (Inl e, w')
               | Inr resp \<Rightarrow> (mistral_result E (req_model payload) resp, w'))"

definition Mistral_generate_response ::
  "'w env \<Rightarrow> Config \<Rightarrow> string \<Rightarrow> message list option \<Rightarrow> 'w \<Rightarrow> (py_exn + response) \<times> 'w" where
  "Mistral_generate_response E c prompt context w =
     except_Exception ''mistral'' ''Mistral'' (Mistral_try E c prompt context w)"

text \<open>
  \<open>GeminiProvider\<close>: the prompt sent is the prompt itself, or, with a context, the last
  five messages as \<open>role: content\<close> lines in front of it.
\<close>

definition gemini_full_prompt :: "'w env \<Rightarrow> string \<Rightarrow> message list option \<Rightarrow> string" where
  "gemini_full_prompt E prompt context =
     (case context of
        None \<Rightarrow> prompt
      | Some ctx \<Rightarrow>
          if ctx = [] then prompt
          else
            let context_text =
                  join nl (map (\<lambda>msg. msg_role msg @ '': '' @ format_value E (msg_content msg))
                             (slice_from (- 5) ctx))
            in ''Context:'' @ nl @ context_text @ nl @ nl @ ''Current question: '' @ prompt)"

text \<open>
  The model object, its \<open>generate_content_async\<close> and the reply's \<open>.text\<close> are the
  library's: the one call of the environment gives the text or the exception.
\<close>

definition Gemini_try ::
  "'w env \<Rightarrow> Config \<Rightarrow> string \<Rightarrow> message list option \<Rightarrow> 'w \<Rightarrow> (py_exn + response) \<times> 'w" where
  "Gemini_try E c prompt context w =
     (let full_prompt = gemini_full_prompt E prompt context;
          (r, w') = generate_content_async E full_prompt w
      in case of_outcome r of
           Inl e \<Rightarrow> (Inl e, w')
         | Inr txt \<Rightarrow>
             (Inr \<lparr>content = PStr txt, provider = ''gemini'', model = Some (PStr ''gemini-pro''),
                   usage = Some PNone, error = False\<rparr>, w'))"

definition Gemini_generate_response ::
  "'w env \<Rightarrow> Config \<Rightarrow> string \<Rightarrow> message list option \<Rightarrow> 'w \<Rightarrow> (py_exn + response) \<times> 'w" where
  "Gemini_generate_response E c prompt context w =
     except_Exception ''gemini'' ''Gemini'' (Gemini_try E c prompt context w)"

definition claude_payload :: "Config \<Rightarrow> string \<Rightarrow> message list option \<Rightarrow> py_exn + claude_request" where
  "claude_payload c prompt context =
     (let messages = prepare_messages prompt context in
      case config_getitem c ''max_tokens'' of Inl e \<Rightarrow> Inl e | Inr mt \<Rightarrow>
      case config_getitem c ''temperature'' of Inl e \<Rightarrow> Inl e | Inr temp \<Rightarrow>
      Inr \<lparr>creq_model = ''claude-3-sonnet-20240229'', creq_max_tokens = mt,
           creq_temperature = temp, creq_messages = messages\<rparr>)"

text \<open>
  \<open>Config\<close> builds the synchronous client \<open>anthropic.Anthropic\<close>, whose
  \<open>messages.create\<close> returns the \<open>Message\<close> itself. \<open>await\<close> on that value raises
  \<open>TypeError\<close>, so the \<open>return\<close> after it, which reads the reply, is never reached.
  The text of the exception is the one CPython 3.13 gives; no statement depends on its
  wording.
\<close>

definition not_awaitable :: py_exn where
  "not_awaitable =
     TypeError (''object Message can'' @ [CHR 0x27] @ ''t be used in '' @ quote ''await'' @ '' expression'')"

definition Claude_try ::
  "'w env \<Rightarrow> Config \<Rightarrow> string \<Rightarrow> message list option \<Rightarrow> 'w \<Rightarrow> (py_exn + response) \<times> 'w" where
  "Claude_try E c prompt context w =
     (if \<not> truthy (anthropic_client c)
      then (Inr (error_response ''claude'' ''Anthropic API key not configured''), w)
      else
        case claude_payload c prompt context of
          Inl e \<Rightarrow> (Inl e, w)
        | Inr req \<Rightarrow>
            let (r, w') = messages_create E req w
            in case of_outcome r of
                 Inl e \<Rightarrow> (Inl e, w')
               | Inr msg \<Rightarrow> (Inl not_awaitable, w'))"

definition Claude_generate_response ::
  "'w env \<Rightarrow> Config \<Rightarrow> string \<Rightarrow> message list option \<Rightarrow> 'w \<Rightarrow> (py_exn + response) \<times> 'w" where
  "Claude_generate_response E c prompt context w =
     except_Exception ''claude'' ''Claude'' (Claude_try E c prompt context w)"

text \<open>\<open>provider.generate_response(prompt, context)\<close>: the method of the object's class.\<close>

fun provider_generate_response ::
  "provider \<Rightarrow> 'w env \<Rightarrow> Config \<Rightarrow> string \<Rightarrow> message list option \<Rightarrow> 'w \<Rightarrow> (py_exn + response) \<times> 'w" where
  "provider_generate_response MistralProvider = Mistral_generate_response"
| "provider_generate_response GeminiProvider = Gemini_generate_response"
| "provider_generate_response ClaudeProvider = Claude_generate_response"

section \<open>DeepThinkingBrain\<close>

record DeepThinkingBrain =
  brain_config :: Config
  history :: HistoryManager
  providers :: "string \<rightharpoonup> provider"

text \<open>The registry \<open>__init__\<close> builds; nothing in the program changes it afterwards.\<close>

definition init_providers :: "string \<rightharpoonup> provider" where
  "init_providers =
     [''mistral'' \<mapsto> MistralProvider, ''gemini'' \<mapsto> GeminiProvider, ''claude'' \<mapsto> ClaudeProvider]"

text \<open>
  \<open>__init__\<close>, given the configuration and the thread files it finds: the three adapters
  under their names, the thread \<open>default\<close>.
\<close>

definition brain_init :: "Config \<Rightarrow> (string \<rightharpoonup> message list) \<Rightarrow> DeepThinkingBrain" where
  "brain_init c fs =
     \<lparr>brain_config = c,
      history = \<lparr>current_thread = ''default'', files = fs\<rparr>,
      providers = init_providers\<rparr>"

text \<open>
  The first loop of \<open>deep_thinking_mode\<close>: for each of the three names that is a key of
  \<open>self.providers\<close>, the name with the call to make. The context is read here, once for
  each call, before any call runs.
\<close>

primrec make_tasks ::
  "DeepThinkingBrain \<Rightarrow> string list \<Rightarrow> (string \<times> provider \<times> message list) list" where
  "make_tasks b [] = []"
| "make_tasks b (provider_name # rest) =
     (case providers b provider_name of
        Some p \<Rightarrow> (provider_name, p, get_context_messages (history b) 10) # make_tasks b rest
      | None \<Rightarrow> make_tasks b rest)"

text \<open>
  The second loop: each call is awaited in turn and its result stored under the name. An
  exception that an adapter lets through ends the loop.
\<close>

primrec await_tasks ::
  "'w env \<Rightarrow> Config \<Rightarrow> string \<Rightarrow> (string \<times> provider \<times> message list) list \<Rightarrow>
   (string \<times> response) list \<Rightarrow> 'w \<Rightarrow> (py_exn + (string \<times> response) list) \<times> 'w" where
  "await_tasks E c prompt [] responses w = (Inr responses, w)"
| "await_tasks E c prompt (task # rest) responses w =
     (case task of (provider_name, p, ctx) \<Rightarrow>
        (case provider_generate_response p E c prompt (Some ctx) w of
           (Inl e, w') \<Rightarrow> (Inl e, w')
         | (Inr r, w') \<Rightarrow>
             await_tasks E c prompt rest (AList.update provider_name r responses) w'))"

definition fan_out ::
  "'w env \<Rightarrow> DeepThinkingBrain \<Rightarrow> string \<Rightarrow> 'w \<Rightarrow> (py_exn + (string \<times> response) list) \<times> 'w" where
  "fan_out E b prompt w =
     await_tasks E (brain_config b) prompt
       (make_tasks b [''mistral'', ''gemini'', ''claude'']) [] w"

text \<open>
  The third loop shows each answer that has no error flag. The console call is outside
  any \<open>try\<close>: if it raises, \<open>deep_thinking_mode\<close> raises.
\<close>

primrec show_responses ::
  "'w env \<Rightarrow> (string \<times> response) list \<Rightarrow> 'w \<Rightarrow> (py_exn + unit) \<times> 'w" where
  "show_responses E [] w = (Inr (), w)"
| "show_responses E (entry # rest) w =
     (case entry of (provider_name, r) \<Rightarrow>
        if error r then show_responses E rest w
        else (case print_panel E provider_name (content r) w of
                (x, w') \<Rightarrow>
                  (case of_outcome x of
                     Inl e \<Rightarrow> (Inl e, w')
                   | Inr u \<Rightarrow> show_responses E rest w')))"

definition indent :: string where
  "indent = replicate 8 (CHR '' '')"

definition synthesis_prompt :: "'w env \<Rightarrow> string \<Rightarrow> (string \<times> response) list \<Rightarrow> string" where
  "synthesis_prompt E prompt responses =
     nl @ indent @ ''Analyze the following responses from different AI models and provide a comprehensive synthesis:'' @ nl
     @ nl
     @ indent @ ''Question: '' @ prompt @ nl
     @ nl
     @ indent @ ''Responses:'' @ nl
     @ indent @ json_dumps E responses @ nl
     @ nl
     @ indent @ ''Please provide a well-reasoned synthesis that combines the best insights from each perspective.'' @ nl
     @ indent"

text \<open>
  \<open>deep_thinking_mode\<close>: the fan-out, the display of the answers, the synthesis prompt,
  and the synthesis call, which gets no context argument. \<open>self.providers['mistral']\<close>
  raises \<open>KeyError\<close> when no adapter has that name. The two lines printed first and the
  progress display have fixed texts and are left out.
\<close>

definition deep_thinking_mode ::
  "'w env \<Rightarrow> DeepThinkingBrain \<Rightarrow> string \<Rightarrow> 'w \<Rightarrow> (py_exn + reply) \<times> 'w" where
  "deep_thinking_mode E b prompt w =
     (case fan_out E b prompt w of
        (Inl e, w1) \<Rightarrow> (Inl e, w1)
      | (Inr responses, w1) \<Rightarrow>
          (case show_responses E responses w1 of
             (Inl e, w2) \<Rightarrow> (Inl e, w2)
           | (Inr u, w2) \<Rightarrow>
               (case providers b ''mistral'' of
                  None \<Rightarrow> (Inl (KeyError (quote ''mistral'')), w2)
                | Some p \<Rightarrow>
                    (case provider_generate_response p E (brain_config b)
                            (synthesis_prompt E prompt responses) None w2 of
                       (Inl e, w3) \<Rightarrow> (Inl e, w3)
                     | (Inr synthesis, w3) \<Rightarrow>
                         (Inr \<lparr>content = content synthesis,
                               provider = ''deep_thinking'',
                               model = Some (PStr ''multi-provider-synthesis''),
                               usage = None,
                               error = False,
                               individual_responses = Some responses\<rparr>, w3)))))"

text \<open>\<open>self.providers[default_provider]\<close> for the value the configuration holds.\<close>

definition providers_getitem :: "'w env \<Rightarrow> DeepThinkingBrain \<Rightarrow> pyval \<Rightarrow> py_exn + provider" where
  "providers_getitem E b v =
     (case v of
        PStr k \<Rightarrow> (case providers b k of Some p \<Rightarrow> Inr p | None \<Rightarrow> Inl (KeyError (quote k)))
      | PList xs \<Rightarrow> Inl (TypeError (''unhashable type: '' @ quote ''list''))
      | PDict kvs \<Rightarrow> Inl (TypeError (''unhashable type: '' @ quote ''dict''))
      | _ \<Rightarrow> Inl (KeyError (str_of E v)))"

text \<open>The call of one adapter with the context window of the current thread.\<close>

definition dispatch ::
  "'w env \<Rightarrow> DeepThinkingBrain \<Rightarrow> provider \<Rightarrow> string \<Rightarrow> 'w \<Rightarrow> (py_exn + reply) \<times> 'w" where
  "dispatch E b p prompt w =
     (case provider_generate_response p E (brain_config b) prompt
             (Some (get_context_messages (history b) 10)) w of
        (Inl e, w') \<Rightarrow> (Inl e, w')
      | (Inr r, w') \<Rightarrow> (Inr (single r), w'))"

text \<open>
  \<open>DeepThinkingBrain.generate_response(prompt, provider, use_deep_thinking)\<close>. The
  argument \<open>provider\<close> is \<open>None\<close> by default.
\<close>

definition generate_response ::
  "'w env \<Rightarrow> DeepThinkingBrain \<Rightarrow> string \<Rightarrow> string option \<Rightarrow> bool \<Rightarrow> 'w \<Rightarrow> (py_exn + reply) \<times> 'w" where
  "generate_response E b prompt prov use_deep_thinking w =
     (if use_deep_thinking then deep_thinking_mode E b prompt w
      else
        case (if truthy prov then providers b (case prov of Some n \<Rightarrow> n | None \<Rightarrow> []) else None) of
          Some p \<Rightarrow> dispatch E b p prompt w
        | None \<Rightarrow>
            (case config_getitem (brain_config b) ''default_provider'' of
               Inl e \<Rightarrow> (Inl e, w)
             | Inr default_provider \<Rightarrow>
                 (case providers_getitem E b default_provider of
                    Inl e \<Rightarrow> (Inl e, w)
                  | Inr p \<Rightarrow> dispatch E b p prompt w)))"

text \<open>
  The single-shot branch of \<open>main\<close>: the response, its display, then the two messages.
  An exception of \<open>generate_response\<close> or of the display ends the run before anything is
  stored. The copy of the answer to the file of \<open>--output\<close> comes after the two
  messages and is left out.
\<close>

definition run_prompt ::
  "'w env \<Rightarrow> DeepThinkingBrain \<Rightarrow> string \<Rightarrow> string option \<Rightarrow> bool \<Rightarrow> 'w \<Rightarrow>
   (py_exn + reply) \<times> DeepThinkingBrain \<times> 'w" where
  "run_prompt E b prompt prov deep w =
     (case generate_response E b prompt prov deep w of
        (Inl e, w1) \<Rightarrow> (Inl e, b, w1)
      | (Inr r, w1) \<Rightarrow>
          (case display_response E r w1 of
             (x, w2) \<Rightarrow>
               (case of_outcome x of
                  Inl e \<Rightarrow> (Inl e, b, w2)
                | Inr u \<Rightarrow>
                    let (h1, w3) = add_message E ''user'' (PStr prompt) None (history b) w2;
                        (h2, w4) = add_message E ''assistant'' (content r) (Some (provider r)) h1 w3
                    in (Inr r, b\<lparr>history := h2\<rparr>, w4))))"


section \<open>Sample inputs\<close>

text \<open>
  A configuration with both credentials and one with none, as \<open>get_default_config\<close>
  fills the dictionary.
\<close>

definition default_config :: "string \<rightharpoonup> pyval" where
  "default_config =
     [''default_provider'' \<mapsto> PStr ''mistral'',
      ''default_model'' \<mapsto> PStr ''mistral-large-latest'',
      ''max_tokens'' \<mapsto> PInt 4096,
      ''temperature'' \<mapsto> PFloat 7 (- 1),
      ''history_enabled'' \<mapsto> PBool True,
      ''output_format'' \<mapsto> PStr ''markdown'']"

definition keys_config :: Config where
  "keys_config = \<lparr>config = default_config, mistral_api_key = Some ''sk-m'', anthropic_client = Some ''sk-a''\<rparr>"

definition no_keys_config :: Config where
  "no_keys_config = \<lparr>config = default_config, mistral_api_key = None, anthropic_client = None\<rparr>"

text \<open>The body of a chat completion whose first choice has the given content.\<close>

definition chat_completion :: "pyval \<Rightarrow> pyval" where
  "chat_completion c =
     PDict [(''choices'', PList [PDict [(''message'', PDict [(''role'', PStr ''assistant''), (''content'', c)])]])]"

text \<open>
  A world whose state is the list of the backend calls that have resolved so far. Each
  backend answers with that list, so an answer tells which calls had resolved when its
  request arrived.
\<close>

definition log_env :: "string list env" where
  "log_env =
     \<lparr>requests_post = (\<lambda>req w.
        (Returns \<lparr>status_code = 200, resp_text = [],
                  resp_json = Inr (chat_completion (PStr (''resolved before: '' @ join '','' w)))\<rparr>,
         w @ [''mistral''])),
      generate_content_async = (\<lambda>p w. (Returns (''resolved before: '' @ join '','' w), w @ [''gemini''])),
      messages_create = (\<lambda>req w.
        (Returns \<lparr>blocks = [''resolved before: '' @ join '','' w], token_usage = None\<rparr>,
         w @ [''claude''])),
      now_isoformat = (\<lambda>w. (''2024-01-01T00:00:00'', w)),
      print_panel = (\<lambda>n c w. (Returns (), w)),
      display_response = (\<lambda>r w. (Returns (), w)),
      json_dumps = (\<lambda>rs. join '','' (map fst rs)),
      str_of = (\<lambda>v. ''?'')\<rparr>"

text \<open>A world in which every network call fails.\<close>

definition down_env :: "unit env" where
  "down_env =
     \<lparr>requests_post = (\<lambda>req w. (Raises ''connection refused'', w)),
      generate_content_async = (\<lambda>p w. (Raises ''connection refused'', w)),
      messages_create = (\<lambda>req w. (Raises ''connection refused'', w)),
      now_isoformat = (\<lambda>w. (''2024-01-01T00:00:00'', w)),
      print_panel = (\<lambda>n c w. (Returns (), w)),
      display_response = (\<lambda>r w. (Returns (), w)),
      json_dumps = (\<lambda>rs. join '','' (map fst rs)),
      str_of = (\<lambda>v. ''?'')\<rparr>"

text \<open>
  A world in which Mistral answers with status 200 and the number 5 as content, and the
  call to Gemini is cancelled while it waits (the user presses Ctrl-C): \<open>CancelledError\<close>
  derives from \<open>BaseException\<close>, not from \<open>Exception\<close>.
\<close>

definition odd_env :: "unit env" where
  "odd_env =
     \<lparr>requests_post = (\<lambda>req w.
        (Returns \<lparr>status_code = 200, resp_text = [],
                  resp_json = Inr (chat_completion (PInt 5))\<rparr>, w)),
      generate_content_async = (\<lambda>p w. (Interrupts ''CancelledError'', w)),
      messages_create = (\<lambda>req w. (Raises ''connection refused'', w)),
      now_isoformat = (\<lambda>w. (''2024-01-01T00:00:00'', w)),
      print_panel = (\<lambda>n c w. (Returns (), w)),
      display_response = (\<lambda>r w. (Returns (), w)),
      json_dumps = (\<lambda>rs. join '','' (map fst rs)),
      str_of = (\<lambda>v. ''?'')\<rparr>"

text \<open>
  A world whose state is the list of the calls made so far, in which only Gemini answers,
  with the text \<open>[/b]\<close>. The console reads a string as markup, and for a closing tag
  that closes nothing its \<open>print\<close> raises \<open>MarkupError\<close>.
\<close>

definition markup_env :: "string list env" where
  "markup_env =
     \<lparr>requests_post = (\<lambda>req w. (Raises ''connection refused'', w @ [''mistral''])),
      generate_content_async = (\<lambda>p w. (Returns ''[/b]'', w @ [''gemini''])),
      messages_create = (\<lambda>req w. (Raises ''connection refused'', w @ [''claude''])),
      now_isoformat = (\<lambda>w. (''2024-01-01T00:00:00'', w)),
      print_panel = (\<lambda>n c w.
        (if c = PStr ''[/b]''
         then Raises (''closing tag '' @ quote ''[/b]'' @ '' at position 0 doesn'' @ [CHR 0x27]
                        @ ''t match any open tag'')
         else Returns (), w @ [''print''])),
      display_response = (\<lambda>r w. (Returns (), w)),
      json_dumps = (\<lambda>rs. join '','' (map fst rs)),
      str_of = (\<lambda>v. ''?'')\<rparr>"

section \<open>Unfolding the model\<close>

lemmas adapter_defs =
  Mistral_generate_response_def Mistral_try_def truthy_def mistral_payload_def config_getitem_def
  mistral_result_def prepare_messages_def choice_content_def get_usage_def error_response_def
  Gemini_generate_response_def Gemini_try_def gemini_full_prompt_def format_value_def
  Claude_generate_response_def Claude_try_def claude_payload_def except_Exception_def
  not_awaitable_def quote_def

lemmas history_defs =
  get_context_messages_def load_history_def save_history_def add_message_def slice_from_def

lemmas sample_defs =
  keys_config_def no_keys_config_def default_config_def log_env_def down_env_def
  chat_completion_def

lemmas brain_defs = fan_out_def deep_thinking_mode_def generate_response_def dispatch_def
  brain_init_def init_providers_def providers_getitem_def single_def response.extend_def
  synthesis_prompt_def

section \<open>The context window\<close>

lemma slice_from_last:
  "0 < k \<Longrightarrow> slice_from (- k) xs = drop (length xs - nat k) xs"
  by (auto simp: slice_from_def Let_def max_def intro!: arg_cong2[where f=drop])

text \<open>For a bound of at least one, the window is the last \<open>min k (length thread)\<close> messages.\<close>

lemma get_context_messages_last:
  "0 < k \<Longrightarrow> get_context_messages h k = drop (length (load_history h) - nat k) (load_history h)"
  by (simp add: get_context_messages_def Let_def slice_from_last)

lemma get_context_messages_length:
  "0 < k \<Longrightarrow> length (get_context_messages h k) = min (nat k) (length (load_history h))"
  by (simp add: get_context_messages_last)

text \<open>
  C8. The window of bound \<open>K\<close> should be the last \<open>min K (length thread)\<close> messages. For
  \<open>K = 0\<close> the slice \<open>history[-0:]\<close> is the whole list: a thread of three messages gives
  all three, where the claim gives none.
\<close>

theorem get_context_messages_zero_returns_all:
  "get_context_messages \<lparr>current_thread = ''t'', files = [''t'' \<mapsto> [a, b, c]]\<rparr> 0 = [a, b, c]"
  by (simp add: history_defs)

section \<open>The context an adapter forwards\<close>

lemma add_context_messages_filter:
  "add_context_messages ctx acc =
     acc @ map (\<lambda>msg. (msg_role msg, msg_content msg))
             (filter (\<lambda>msg. msg_role msg = ''user'' \<or> msg_role msg = ''assistant'') ctx)"
  by (induction ctx arbitrary: acc) auto

text \<open>\<open>MistralProvider\<close> and \<open>ClaudeProvider\<close> forward the two roles only.\<close>

lemma prepare_messages_roles:
  "set (map fst (prepare_messages prompt context)) \<subseteq> {''user'', ''assistant''}"
  by (auto simp: prepare_messages_def add_context_messages_filter split: option.splits)

text \<open>
  C7. Only messages of role \<open>user\<close> or \<open>assistant\<close> should reach a backend.
  \<open>GeminiProvider\<close> has no test of the role: a message of role \<open>system\<close> in the context
  is part of the prompt it sends.
\<close>

theorem gemini_forwards_other_roles:
  "gemini_full_prompt down_env ''q''
     (Some [\<lparr>msg_role = ''system'', msg_content = PStr ''secret'',
             msg_provider = None, msg_timestamp = ''t''\<rparr>])
   = ''Context:'' @ nl @ ''system: secret'' @ nl @ nl @ ''Current question: q''"
  by (simp add: adapter_defs history_defs nl_def)

section \<open>What an adapter catches\<close>

text \<open>The handler \<open>except Exception\<close>: what it lets through and what it returns.\<close>

lemma except_Exception_Inl:
  "except_Exception name label x = (Inl e, w') \<Longrightarrow> x = (Inl e, w') \<and> \<not> is_Exception e"
  by (cases x) (auto simp: except_Exception_def split: sum.splits if_splits)

lemma except_Exception_Inr:
  "except_Exception name label x = (Inr r, w') \<Longrightarrow>
     x = (Inr r, w') \<or>
     (\<exists>e. x = (Inl e, w') \<and> is_Exception e \<and>
          r = error_response name (''Error with '' @ label @ '': '' @ exn_str e))"
  by (cases x) (auto simp: except_Exception_def split: sum.splits if_splits)

lemma of_outcome_Inl_not_Exception:
  "of_outcome r = Inl e \<Longrightarrow> \<not> is_Exception e \<Longrightarrow> \<exists>s. r = Interrupts s \<and> e = BaseException s"
  by (cases r) auto

lemma of_outcome_Inr: "of_outcome r = Inr a \<Longrightarrow> r = Returns a"
  by (cases r) auto

lemma error_response_flagged:
  "error (error_response name txt) \<and> content (error_response name txt) = PStr txt"
  by (simp add: error_response_def)

text \<open>
  Everything the code of a \<open>try\<close> body raises by itself (a missing configuration key, a
  reply of the wrong shape, the \<open>await\<close> of a value that is no awaitable) derives from
  \<open>Exception\<close>.
\<close>

lemma getitem_str_Exception: "getitem_str v k = Inl e \<Longrightarrow> is_Exception e"
  by (cases v) (auto simp: not_subscriptable_def split: option.splits)

lemma getitem_0_Exception: "getitem_0 v = Inl e \<Longrightarrow> is_Exception e"
  by (induction v rule: getitem_0.induct) (auto simp: not_subscriptable_def)

lemma choice_content_Exception: "choice_content data = Inl e \<Longrightarrow> is_Exception e"
  by (auto simp: choice_content_def split: sum.splits
           dest: getitem_str_Exception getitem_0_Exception)

lemma config_getitem_Exception: "config_getitem c k = Inl e \<Longrightarrow> is_Exception e"
  by (auto simp: config_getitem_def split: option.splits)

lemma mistral_payload_Exception: "mistral_payload c prompt ctx = Inl e \<Longrightarrow> is_Exception e"
  by (auto simp: mistral_payload_def Let_def split: sum.splits dest: config_getitem_Exception)

lemma claude_payload_Exception: "claude_payload c prompt ctx = Inl e \<Longrightarrow> is_Exception e"
  by (auto simp: claude_payload_def Let_def split: sum.splits dest: config_getitem_Exception)

lemma mistral_result_Exception: "mistral_result E mdl resp = Inl e \<Longrightarrow> is_Exception e"
  by (auto simp: mistral_result_def split: if_splits sum.splits dest: choice_content_Exception)

text \<open>So an exception that leaves a \<open>try\<close> body uncaught comes out of the backend call.\<close>

lemma Mistral_try_Inl:
  assumes "Mistral_try E c prompt ctx w = (Inl e, w')" and "\<not> is_Exception e"
  shows "truthy (mistral_api_key c) \<and>
         (\<exists>req s. mistral_payload c prompt ctx = Inr req \<and>
            requests_post E req w = (Interrupts s, w') \<and> e = BaseException s)"
proof -
  from assms(1) have k: "truthy (mistral_api_key c)"
    by (auto simp: Mistral_try_def split: if_splits)
  show ?thesis
  proof (cases "mistral_payload c prompt ctx")
    case (Inl e')
    with assms k show ?thesis
      by (auto simp: Mistral_try_def dest: mistral_payload_Exception)
  next
    case (Inr req)
    obtain r w1 where p: "requests_post E req w = (r, w1)"
      by (cases "requests_post E req w") auto
    show ?thesis
    proof (cases "of_outcome r")
      case (Inl e')
      with assms k Inr p have "e' = e" "w1 = w'"
        by (auto simp: Mistral_try_def)
      with Inl assms(2) p k \<open>mistral_payload c prompt ctx = Inr req\<close> show ?thesis
        by (auto dest!: of_outcome_Inl_not_Exception)
    next
      case (Inr resp)
      with assms k \<open>mistral_payload c prompt ctx = Inr req\<close> p
      have "mistral_result E (req_model req) resp = Inl e"
        by (auto simp: Mistral_try_def)
      with assms(2) show ?thesis by (auto dest: mistral_result_Exception)
    qed
  qed
qed

lemma Mistral_try_Inr:
  assumes "Mistral_try E c prompt ctx w = (Inr r, w')"
  shows "(error r \<longrightarrow> (\<exists>t. content r = PStr t \<and> t \<noteq> [])) \<and>
         (\<not> error r \<longrightarrow>
            truthy (mistral_api_key c) \<and>
            (\<exists>req resp data. mistral_payload c prompt ctx = Inr req \<and>
               requests_post E req w = (Returns resp, w') \<and> status_code resp = 200 \<and>
               resp_json resp = Inr data \<and> choice_content data = Inr (content r)))"
proof (cases "truthy (mistral_api_key c)")
  case False
  with assms show ?thesis by (auto simp: Mistral_try_def error_response_def)
next
  case True
  show ?thesis
  proof (cases "mistral_payload c prompt ctx")
    case (Inl e)
    with assms True show ?thesis by (auto simp: Mistral_try_def)
  next
    case (Inr req)
    obtain x w1 where p: "requests_post E req w = (x, w1)"
      by (cases "requests_post E req w") auto
    show ?thesis
    proof (cases "of_outcome x")
      case (Inl e)
      with assms True Inr p show ?thesis by (auto simp: Mistral_try_def)
    next
      case (Inr resp)
      then have x: "x = Returns resp" by (rule of_outcome_Inr)
      from assms True \<open>mistral_payload c prompt ctx = Inr req\<close> p Inr
      have m: "mistral_result E (req_model req) resp = Inr r" and w: "w1 = w'"
        by (auto simp: Mistral_try_def)
      from m have "(error r \<longrightarrow> (\<exists>t. content r = PStr t \<and> t \<noteq> [])) \<and>
         (\<not> error r \<longrightarrow> status_code resp = 200 \<and>
            (\<exists>data. resp_json resp = Inr data \<and> choice_content data = Inr (content r)))"
        by (auto simp: mistral_result_def error_response_def split: if_splits sum.splits)
      with True \<open>mistral_payload c prompt ctx = Inr req\<close> p x w show ?thesis by auto
    qed
  qed
qed

lemma Gemini_try_cases:
  "Gemini_try E c prompt ctx w = (x, w') \<Longrightarrow>
     (\<exists>t. generate_content_async E (gemini_full_prompt E prompt ctx) w = (Returns t, w') \<and>
          x = Inr \<lparr>content = PStr t, provider = ''gemini'', model = Some (PStr ''gemini-pro''),
                   usage = Some PNone, error = False\<rparr>)
   \<or> (\<exists>s. generate_content_async E (gemini_full_prompt E prompt ctx) w = (Raises s, w') \<and>
          x = Inl (Exception s))
   \<or> (\<exists>s. generate_content_async E (gemini_full_prompt E prompt ctx) w = (Interrupts s, w') \<and>
          x = Inl (BaseException s))"
proof -
  assume a: "Gemini_try E c prompt ctx w = (x, w')"
  obtain r w1 where g: "generate_content_async E (gemini_full_prompt E prompt ctx) w = (r, w1)"
    by (cases "generate_content_async E (gemini_full_prompt E prompt ctx) w") auto
  from a g show ?thesis
    by (cases r) (auto simp: Gemini_try_def Let_def)
qed

lemma Claude_try_Inr:
  "Claude_try E c prompt ctx w = (Inr r, w') \<Longrightarrow>
     r = error_response ''claude'' ''Anthropic API key not configured''"
proof -
  assume a: "Claude_try E c prompt ctx w = (Inr r, w')"
  show ?thesis
  proof (cases "truthy (anthropic_client c)")
    case False
    with a show ?thesis by (auto simp: Claude_try_def)
  next
    case True
    show ?thesis
    proof (cases "claude_payload c prompt ctx")
      case (Inl e)
      with a True show ?thesis by (auto simp: Claude_try_def)
    next
      case (Inr req)
      obtain x w1 where p: "messages_create E req w = (x, w1)"
        by (cases "messages_create E req w") auto
      from a True Inr p show ?thesis
        by (cases "of_outcome x") (auto simp: Claude_try_def)
    qed
  qed
qed

lemma Claude_try_Inl:
  assumes "Claude_try E c prompt ctx w = (Inl e, w')" and "\<not> is_Exception e"
  shows "truthy (anthropic_client c) \<and>
         (\<exists>req s. claude_payload c prompt ctx = Inr req \<and>
            messages_create E req w = (Interrupts s, w') \<and> e = BaseException s)"
proof -
  from assms(1) have k: "truthy (anthropic_client c)"
    by (auto simp: Claude_try_def split: if_splits)
  show ?thesis
  proof (cases "claude_payload c prompt ctx")
    case (Inl e')
    with assms k show ?thesis by (auto simp: Claude_try_def dest: claude_payload_Exception)
  next
    case (Inr req)
    obtain x w1 where p: "messages_create E req w = (x, w1)"
      by (cases "messages_create E req w") auto
    show ?thesis
    proof (cases "of_outcome x")
      case (Inl e')
      with assms k Inr p have "e' = e" "w1 = w'" by (auto simp: Claude_try_def)
      with Inl assms(2) p k \<open>claude_payload c prompt ctx = Inr req\<close> show ?thesis
        by (auto dest!: of_outcome_Inl_not_Exception)
    next
      case (Inr msg)
      with assms k \<open>claude_payload c prompt ctx = Inr req\<close> p show ?thesis
        by (auto simp: Claude_try_def not_awaitable_def)
    qed
  qed
qed

text \<open>The three adapters, each with what it returns and what it lets through.\<close>

lemma Mistral_generate_response_cases:
  "\<exists>x w'. Mistral_generate_response E c prompt ctx w = (x, w') \<and>
     (case x of
        Inl e \<Rightarrow>
          truthy (mistral_api_key c) \<and>
          (\<exists>req s. mistral_payload c prompt ctx = Inr req \<and>
             requests_post E req w = (Interrupts s, w') \<and> e = BaseException s)
      | Inr r \<Rightarrow>
          (error r \<longrightarrow> (\<exists>t. content r = PStr t \<and> t \<noteq> [])) \<and>
          (\<not> error r \<longrightarrow>
             truthy (mistral_api_key c) \<and>
             (\<exists>req resp data. mistral_payload c prompt ctx = Inr req \<and>
                requests_post E req w = (Returns resp, w') \<and> status_code resp = 200 \<and>
                resp_json resp = Inr data \<and> choice_content data = Inr (content r))))"
proof -
  obtain x w' where g: "Mistral_generate_response E c prompt ctx w = (x, w')"
    by (cases "Mistral_generate_response E c prompt ctx w") auto
  show ?thesis
  proof (cases x)
    case (Inl e)
    with g have "Mistral_try E c prompt ctx w = (Inl e, w')" "\<not> is_Exception e"
      by (auto simp: Mistral_generate_response_def dest: except_Exception_Inl)
    then have "truthy (mistral_api_key c) \<and>
          (\<exists>req s. mistral_payload c prompt ctx = Inr req \<and>
             requests_post E req w = (Interrupts s, w') \<and> e = BaseException s)"
      by (rule Mistral_try_Inl)
    with g Inl show ?thesis by simp
  next
    case (Inr r)
    with g have "except_Exception ''mistral'' ''Mistral'' (Mistral_try E c prompt ctx w) = (Inr r, w')"
      by (simp add: Mistral_generate_response_def)
    then consider "Mistral_try E c prompt ctx w = (Inr r, w')"
      | e where "r = error_response ''mistral'' (''Error with '' @ ''Mistral'' @ '': '' @ exn_str e)"
      by (auto dest: except_Exception_Inr)
    then have "(error r \<longrightarrow> (\<exists>t. content r = PStr t \<and> t \<noteq> [])) \<and>
          (\<not> error r \<longrightarrow>
             truthy (mistral_api_key c) \<and>
             (\<exists>req resp data. mistral_payload c prompt ctx = Inr req \<and>
                requests_post E req w = (Returns resp, w') \<and> status_code resp = 200 \<and>
                resp_json resp = Inr data \<and> choice_content data = Inr (content r)))"
    proof cases
      case 1
      then show ?thesis by (rule Mistral_try_Inr)
    next
      case 2
      then show ?thesis by (simp add: error_response_def)
    qed
    with g Inr show ?thesis by simp
  qed
qed

lemma Gemini_generate_response_cases:
  "\<exists>x w'. Gemini_generate_response E c prompt ctx w = (x, w') \<and>
     (case x of
        Inl e \<Rightarrow> (\<exists>s. generate_content_async E (gemini_full_prompt E prompt ctx) w = (Interrupts s, w')
                      \<and> e = BaseException s)
      | Inr r \<Rightarrow>
          (error r \<longrightarrow> (\<exists>t. content r = PStr t \<and> t \<noteq> [])) \<and>
          (\<not> error r \<longrightarrow>
             (\<exists>t. generate_content_async E (gemini_full_prompt E prompt ctx) w = (Returns t, w') \<and>
                content r = PStr t)))"
proof -
  obtain x w' where t: "Gemini_try E c prompt ctx w = (x, w')"
    by (cases "Gemini_try E c prompt ctx w") auto
  from Gemini_try_cases [OF t] show ?thesis
    by (auto simp: Gemini_generate_response_def t except_Exception_def error_response_def)
qed

lemma Claude_generate_response_cases:
  "\<exists>x w'. Claude_generate_response E c prompt ctx w = (x, w') \<and>
     (case x of
        Inl e \<Rightarrow>
          truthy (anthropic_client c) \<and>
          (\<exists>req s. claude_payload c prompt ctx = Inr req \<and>
             messages_create E req w = (Interrupts s, w') \<and> e = BaseException s)
      | Inr r \<Rightarrow> error r \<and> (\<exists>t. content r = PStr t \<and> t \<noteq> []))"
proof -
  obtain x w' where g: "Claude_generate_response E c prompt ctx w = (x, w')"
    by (cases "Claude_generate_response E c prompt ctx w") auto
  show ?thesis
  proof (cases x)
    case (Inl e)
    with g have "Claude_try E c prompt ctx w = (Inl e, w')" "\<not> is_Exception e"
      by (auto simp: Claude_generate_response_def dest: except_Exception_Inl)
    then have "truthy (anthropic_client c) \<and>
          (\<exists>req s. claude_payload c prompt ctx = Inr req \<and>
             messages_create E req w = (Interrupts s, w') \<and> e = BaseException s)"
      by (rule Claude_try_Inl)
    with g Inl show ?thesis by simp
  next
    case (Inr r)
    with g have "except_Exception ''claude'' ''Claude'' (Claude_try E c prompt ctx w) = (Inr r, w')"
      by (simp add: Claude_generate_response_def)
    then consider "Claude_try E c prompt ctx w = (Inr r, w')"
      | e where "r = error_response ''claude'' (''Error with '' @ ''Claude'' @ '': '' @ exn_str e)"
      by (auto dest: except_Exception_Inr)
    then have "error r \<and> (\<exists>t. content r = PStr t \<and> t \<noteq> [])"
    proof cases
      case 1
      then have "r = error_response ''claude'' ''Anthropic API key not configured''"
        by (rule Claude_try_Inr)
      then show ?thesis by (simp add: error_response_def)
    next
      case 2
      then show ?thesis by (simp add: error_response_def)
    qed
    with g Inr show ?thesis by simp
  qed
qed







lemma flagged_content:
  "provider_generate_response p E c prompt ctx w = (Inr r, w') \<Longrightarrow> error r \<Longrightarrow>
     \<exists>t. content r = PStr t \<and> t \<noteq> []"
  using Mistral_generate_response_cases [of E c prompt ctx w]
        Gemini_generate_response_cases [of E c prompt ctx w]
        Claude_generate_response_cases [of E c prompt ctx w]
  by (cases p) auto

text \<open>
  C2, as stated: \<open>generate_response\<close> of an adapter never raises, and any malformed reply
  comes back with the error flag. Neither holds. The handler is \<open>except Exception\<close>, so
  the \<open>CancelledError\<close> of a cancelled call to Gemini reaches the caller; and a reply of
  Mistral with status 200 whose content is the number 5 is returned as the content of a
  result without the error flag.
\<close>

theorem adapter_raises_and_returns_unflagged:
  "provider_generate_response GeminiProvider odd_env keys_config ''hi'' None ()
     = (Inl (BaseException ''CancelledError''), ())
   \<and> provider_generate_response MistralProvider odd_env keys_config ''hi'' None ()
     = (Inr \<lparr>content = PInt 5, provider = ''mistral'', model = Some (PStr ''mistral-large-latest''),
             usage = Some (PDict []), error = False\<rparr>, ())"
  by (simp add: adapter_defs sample_defs odd_env_def)

text \<open>
  C2, amended. \<open>generate_response\<close> of every adapter ends for every input. It lets an
  exception through only when its backend call, made with the credential there and the
  request built, raises one that does not derive from \<open>Exception\<close>. In every other case
  it returns a result, and the result has the error flag and a text that is not empty
  unless: for Mistral, the credential is there, the request was built, the backend
  answered with status 200 and a JSON body in which \<open>choices[0].message.content\<close>
  exists, and that value is the content; for Gemini, the call returned the text that is
  the content; for Claude, never. So every exception that derives from \<open>Exception\<close>, a
  missing credential and a status other than 200 give a result with the error flag.
\<close>

theorem adapter_catches_every_Exception:
  "\<exists>x w'. provider_generate_response p E c prompt ctx w = (x, w') \<and>
     (case x of
        Inl e \<Rightarrow>
          (\<exists>s. e = BaseException s \<and>
             (case p of
                MistralProvider \<Rightarrow>
                  truthy (mistral_api_key c) \<and>
                  (\<exists>req. mistral_payload c prompt ctx = Inr req \<and>
                     requests_post E req w = (Interrupts s, w'))
              | GeminiProvider \<Rightarrow>
                  generate_content_async E (gemini_full_prompt E prompt ctx) w = (Interrupts s, w')
              | ClaudeProvider \<Rightarrow>
                  truthy (anthropic_client c) \<and>
                  (\<exists>req. claude_payload c prompt ctx = Inr req \<and>
                     messages_create E req w = (Interrupts s, w'))))
      | Inr r \<Rightarrow>
          (error r \<longrightarrow> (\<exists>t. content r = PStr t \<and> t \<noteq> [])) \<and>
          (\<not> error r \<longrightarrow>
             (case p of
                MistralProvider \<Rightarrow>
                  truthy (mistral_api_key c) \<and>
                  (\<exists>req resp data. mistral_payload c prompt ctx = Inr req \<and>
                     requests_post E req w = (Returns resp, w') \<and> status_code resp = 200 \<and>
                     resp_json resp = Inr data \<and> choice_content data = Inr (content r))
              | GeminiProvider \<Rightarrow>
                  (\<exists>t. generate_content_async E (gemini_full_prompt E prompt ctx) w = (Returns t, w') \<and>
                     content r = PStr t)
              | ClaudeProvider \<Rightarrow> False)))"
proof (cases p)
  case MistralProvider
  obtain x w' where g: "Mistral_generate_response E c prompt ctx w = (x, w')"
    by (cases "Mistral_generate_response E c prompt ctx w") auto
  from Mistral_generate_response_cases [of E c prompt ctx w] g MistralProvider
  show ?thesis by (cases x) auto
next
  case GeminiProvider
  obtain x w' where g: "Gemini_generate_response E c prompt ctx w = (x, w')"
    by (cases "Gemini_generate_response E c prompt ctx w") auto
  from Gemini_generate_response_cases [of E c prompt ctx w] g GeminiProvider
  show ?thesis by (cases x) auto
next
  case ClaudeProvider
  obtain x w' where g: "Claude_generate_response E c prompt ctx w = (x, w')"
    by (cases "Claude_generate_response E c prompt ctx w") auto
  from Claude_generate_response_cases [of E c prompt ctx w] g ClaudeProvider
  show ?thesis by (cases x) auto
qed

theorem adapter_catches_every_Exception_witness:
  "provider_generate_response MistralProvider down_env keys_config ''hi'' None ()
     = (Inr \<lparr>content = PStr ''Error with Mistral: connection refused'', provider = ''mistral'',
         model = None, usage = None, error = True\<rparr>, ())
   \<and> provider_generate_response ClaudeProvider down_env no_keys_config ''hi'' None ()
     = (Inr \<lparr>content = PStr ''Anthropic API key not configured'', provider = ''claude'',
         model = None, usage = None, error = True\<rparr>, ())
   \<and> provider_generate_response GeminiProvider log_env keys_config ''hi'' None []
     = (Inr \<lparr>content = PStr ''resolved before: '', provider = ''gemini'',
         model = Some (PStr ''gemini-pro''), usage = Some PNone, error = False\<rparr>, [''gemini''])
   \<and> provider_generate_response GeminiProvider odd_env keys_config ''hi'' None ()
     = (Inl (BaseException ''CancelledError''), ())"
  using adapter_catches_every_Exception [of MistralProvider down_env keys_config "''hi''" None "()"]
        adapter_catches_every_Exception [of ClaudeProvider down_env no_keys_config "''hi''" None "()"]
        adapter_catches_every_Exception [of GeminiProvider log_env keys_config "''hi''" None "[]"]
        adapter_catches_every_Exception [of GeminiProvider odd_env keys_config "''hi''" None "()"]
  by (simp add: adapter_defs sample_defs odd_env_def)

section \<open>Fan-out\<close>







lemma deep_thinking_mode_Inr:
  "deep_thinking_mode E b prompt w = (Inr r, w') \<Longrightarrow>
     \<exists>rs w1 w2 p synthesis.
        fan_out E b prompt w = (Inr rs, w1) \<and> show_responses E rs w1 = (Inr (), w2) \<and>
        providers b ''mistral'' = Some p \<and>
        provider_generate_response p E (brain_config b) (synthesis_prompt E prompt rs) None w2
          = (Inr synthesis, w') \<and>
        r = \<lparr>content = content synthesis, provider = ''deep_thinking'',
             model = Some (PStr ''multi-provider-synthesis''), usage = None, error = False,
             individual_responses = Some rs\<rparr>"
  by (auto simp: deep_thinking_mode_def split: prod.splits sum.splits option.splits)

text \<open>
  The display loop prints nothing when every entry has the error flag, and ends when the
  console prints what it is given.
\<close>

lemma show_responses_all_flagged:
  "list_all (\<lambda>entry. error (snd entry)) rs \<Longrightarrow> show_responses E rs w = (Inr (), w)"
  by (induction rs) (auto split: prod.splits)


text \<open>After the fan-out and the display, the synthesis call is Mistral's, with no context.\<close>

lemma deep_thinking_mode_init:
  assumes "providers b = init_providers"
      and "fan_out E b prompt w = (Inr rs, w1)"
      and "show_responses E rs w1 = (Inr (), w2)"
  shows "deep_thinking_mode E b prompt w =
           (case Mistral_generate_response E (brain_config b) (synthesis_prompt E prompt rs) None w2 of
              (Inl e, w3) \<Rightarrow> (Inl e, w3)
            | (Inr synthesis, w3) \<Rightarrow>
                (Inr \<lparr>content = content synthesis, provider = ''deep_thinking'',
                      model = Some (PStr ''multi-provider-synthesis''), usage = None, error = False,
                      individual_responses = Some rs\<rparr>, w3))"
  using assms by (simp add: deep_thinking_mode_def init_providers_def)



section \<open>The order of the fan-out calls\<close>

text \<open>
  C9. All adapter calls should be issued before any of them resolves. The first loop only
  makes the coroutine objects; the second awaits them one after the other, so a call
  starts when the one before has resolved. In the world that answers each request with
  the calls resolved so far, Gemini's request arrives after Mistral's has resolved, and
  Claude's is the last to resolve (its answer is lost to the \<open>TypeError\<close> of the
  \<open>await\<close>).
\<close>

theorem fan_out_is_sequential:
  "fan_out log_env (brain_init keys_config Map.empty) ''hi'' []
   = (Inr [(''mistral'', \<lparr>content = PStr ''resolved before: '', provider = ''mistral'',
               model = Some (PStr ''mistral-large-latest''), usage = Some (PDict []), error = False\<rparr>),
           (''gemini'', \<lparr>content = PStr ''resolved before: mistral'', provider = ''gemini'',
               model = Some (PStr ''gemini-pro''), usage = Some PNone, error = False\<rparr>),
           (''claude'', \<lparr>content = PStr (''Error with Claude: '' @ exn_str not_awaitable),
               provider = ''claude'', model = None, usage = None, error = True\<rparr>)],
      [''mistral'', ''gemini'', ''claude''])"
  by (simp add: brain_defs adapter_defs history_defs sample_defs)

section \<open>Single-backend dispatch\<close>

text \<open>
  C3, as stated: an id that is not registered is signalled as a configuration error. It is
  not: a request for the backend \<open>gpt\<close> returns normally, answered by the default
  backend \<open>mistral\<close>.
\<close>

theorem unknown_provider_served_by_default:
  "fst (generate_response log_env (brain_init keys_config Map.empty) ''ping'' (Some ''gpt'') False [])
   = Inr \<lparr>content = PStr ''resolved before: '', provider = ''mistral'',
          model = Some (PStr ''mistral-large-latest''), usage = Some (PDict []), error = False,
          individual_responses = None\<rparr>"
  by (simp add: brain_defs adapter_defs history_defs sample_defs)

text \<open>
  C3, amended. An id that is not registered is treated as no id: the call does what it
  does when no backend is named. It reads \<open>default_provider\<close> from the configuration
  (\<open>KeyError\<close> to the caller when the key is missing), looks that value up in the
  registry (\<open>KeyError\<close> when the value is not a registered name, \<open>TypeError\<close> when it is
  a list or a dictionary, which cannot be hashed), and calls the adapter found with the
  same prompt and the context window. The caller gets that adapter's result, or the
  exception the adapter lets through.
\<close>

theorem unknown_provider_uses_default:
  assumes "providers b n = None"
  shows "generate_response E b prompt (Some n) False w = generate_response E b prompt None False w
    \<and> generate_response E b prompt (Some n) False w =
        (case config (brain_config b) ''default_provider'' of
           None \<Rightarrow> (Inl (KeyError (quote ''default_provider'')), w)
         | Some v \<Rightarrow>
             (case providers_getitem E b v of
                Inl e \<Rightarrow> (Inl e, w)
              | Inr p \<Rightarrow>
                  (case provider_generate_response p E (brain_config b) prompt
                          (Some (get_context_messages (history b) 10)) w of
                     (Inl e, w') \<Rightarrow> (Inl e, w')
                   | (Inr r, w') \<Rightarrow> (Inr (single r), w'))))"
proof -
  have sel: "(if truthy (Some n) then providers b (case Some n of Some n \<Rightarrow> n | None \<Rightarrow> []) else None) = None"
    using assms by simp
  have sel0: "(if truthy None then providers b (case None of Some n \<Rightarrow> n | None \<Rightarrow> []) else None) = None"
    by (simp add: truthy_def)
  have a: "generate_response E b prompt (Some n) False w = generate_response E b prompt None False w"
    unfolding generate_response_def sel sel0 by (rule refl)
  have b: "generate_response E b prompt (Some n) False w =
        (case config (brain_config b) ''default_provider'' of
           None \<Rightarrow> (Inl (KeyError (quote ''default_provider'')), w)
         | Some v \<Rightarrow>
             (case providers_getitem E b v of
                Inl e \<Rightarrow> (Inl e, w)
              | Inr p \<Rightarrow>
                  (case provider_generate_response p E (brain_config b) prompt
                          (Some (get_context_messages (history b) 10)) w of
                     (Inl e, w') \<Rightarrow> (Inl e, w')
                   | (Inr r, w') \<Rightarrow> (Inr (single r), w'))))"
    unfolding generate_response_def sel
    by (simp add: config_getitem_def dispatch_def split: option.splits sum.splits)
  from a b show ?thesis by (rule conjI)
qed

theorem unknown_provider_uses_default_witness:
  "providers (brain_init keys_config Map.empty) ''gpt'' = None
   \<and> generate_response log_env (brain_init keys_config Map.empty) ''ping'' (Some ''gpt'') False []
     = generate_response log_env (brain_init keys_config Map.empty) ''ping'' None False []
   \<and> generate_response log_env (brain_init keys_config Map.empty) ''ping'' (Some ''gpt'') False []
     = (Inr \<lparr>content = PStr ''resolved before: '', provider = ''mistral'',
          model = Some (PStr ''mistral-large-latest''), usage = Some (PDict []), error = False,
          individual_responses = None\<rparr>, [''mistral''])
   \<and> generate_response log_env (brain_init (keys_config\<lparr>config := Map.empty\<rparr>) Map.empty)
         ''ping'' (Some ''gpt'') False []
     = (Inl (KeyError (quote ''default_provider'')), [])
   \<and> generate_response log_env
         (brain_init (keys_config\<lparr>config := [''default_provider'' \<mapsto> PStr ''gpt'']\<rparr>) Map.empty)
         ''ping'' (Some ''gpt'') False []
     = (Inl (KeyError (quote ''gpt'')), [])
   \<and> generate_response log_env
         (brain_init (keys_config\<lparr>config := [''default_provider'' \<mapsto> PList []]\<rparr>) Map.empty)
         ''ping'' (Some ''gpt'') False []
     = (Inl (TypeError (''unhashable type: '' @ quote ''list'')), [])"
proof -
  have h: "providers (brain_init c Map.empty) ''gpt'' = None" for c
    by (simp add: brain_init_def init_providers_def)
  note u = unknown_provider_uses_default [OF h, of log_env _ "''ping''" "[]"]
  have 1: "generate_response log_env (brain_init keys_config Map.empty) ''ping'' (Some ''gpt'') False []
     = generate_response log_env (brain_init keys_config Map.empty) ''ping'' None False []"
    using u [of keys_config] by (rule conjunct1)
  have 2: "generate_response log_env (brain_init keys_config Map.empty) ''ping'' (Some ''gpt'') False []
     = (Inr \<lparr>content = PStr ''resolved before: '', provider = ''mistral'',
          model = Some (PStr ''mistral-large-latest''), usage = Some (PDict []), error = False,
          individual_responses = None\<rparr>, [''mistral''])"
    unfolding u [of keys_config, THEN conjunct2]
    by (simp add: brain_init_def init_providers_def providers_getitem_def single_def
          response.extend_def adapter_defs history_defs sample_defs)
  have 3: "generate_response log_env (brain_init (keys_config\<lparr>config := Map.empty\<rparr>) Map.empty)
         ''ping'' (Some ''gpt'') False []
     = (Inl (KeyError (quote ''default_provider'')), [])"
    unfolding u [of "keys_config\<lparr>config := Map.empty\<rparr>", THEN conjunct2]
    by (simp add: brain_init_def keys_config_def)
  have 4: "generate_response log_env
         (brain_init (keys_config\<lparr>config := [''default_provider'' \<mapsto> PStr ''gpt'']\<rparr>) Map.empty)
         ''ping'' (Some ''gpt'') False []
     = (Inl (KeyError (quote ''gpt'')), [])"
    unfolding u [of "keys_config\<lparr>config := [''default_provider'' \<mapsto> PStr ''gpt'']\<rparr>", THEN conjunct2]
    by (simp add: brain_init_def init_providers_def providers_getitem_def keys_config_def)
  have 5: "generate_response log_env
         (brain_init (keys_config\<lparr>config := [''default_provider'' \<mapsto> PList []]\<rparr>) Map.empty)
         ''ping'' (Some ''gpt'') False []
     = (Inl (TypeError (''unhashable type: '' @ quote ''list'')), [])"
    unfolding u [of "keys_config\<lparr>config := [''default_provider'' \<mapsto> PList []]\<rparr>", THEN conjunct2]
    by (simp add: brain_init_def providers_getitem_def keys_config_def)
  from h [of keys_config] 1 2 3 4 5 show ?thesis by (intro conjI)
qed

section \<open>Synthesis\<close>

text \<open>
  The synthesis prompt holds the JSON text of the whole fan-out map, and the synthesis
  call, made without a context, sends that prompt as its only message.
\<close>

lemma synthesis_prompt_embeds:
  "\<exists>pre post. synthesis_prompt E prompt rs = pre @ json_dumps E rs @ post"
  unfolding synthesis_prompt_def
  by (metis append.assoc)

lemma prepare_messages_no_context:
  "prepare_messages sp None = [(''user'', PStr sp)]"
  by (simp add: prepare_messages_def)

lemma mistral_payload_no_context:
  "mistral_payload c sp None = Inr req \<Longrightarrow> req_messages req = [(''user'', PStr sp)]"
  by (auto simp: mistral_payload_def prepare_messages_no_context Let_def split: sum.splits)

text \<open>
  When every adapter failed nothing is displayed, and the synthesis call is made on the
  map of the three failed entries.
\<close>

lemma synthesis_when_all_failed:
  assumes "providers b = init_providers"
      and "fan_out E b prompt w = (Inr rs, w1)"
      and "list_all (\<lambda>entry. error (snd entry)) rs"
  shows "deep_thinking_mode E b prompt w =
           (case Mistral_generate_response E (brain_config b) (synthesis_prompt E prompt rs) None w1 of
              (Inl e, w3) \<Rightarrow> (Inl e, w3)
            | (Inr synthesis, w3) \<Rightarrow>
                (Inr \<lparr>content = content synthesis, provider = ''deep_thinking'',
                      model = Some (PStr ''multi-provider-synthesis''), usage = None, error = False,
                      individual_responses = Some rs\<rparr>, w3))"
  by (rule deep_thinking_mode_init [OF assms(1,2) show_responses_all_flagged [OF assms(3)]])

text \<open>
  C4. Synthesis should be invoked for every fan-out result set. Between the fan-out and
  the synthesis call, \<open>deep_thinking_mode\<close> prints each answer that has no error flag,
  as console markup and outside any \<open>try\<close>. When Gemini answers \<open>[/b]\<close> and the two
  other backends fail, the fan-out gives its three entries, the print of Gemini's answer
  raises, and \<open>deep_thinking_mode\<close> raises with it: the calls made are the three of the
  fan-out and the print, and no synthesis call.
\<close>

theorem display_failure_skips_synthesis:
  "fan_out markup_env (brain_init keys_config Map.empty) ''hi'' []
   = (Inr [(''mistral'', \<lparr>content = PStr ''Error with Mistral: connection refused'',
               provider = ''mistral'', model = None, usage = None, error = True\<rparr>),
           (''gemini'', \<lparr>content = PStr ''[/b]'', provider = ''gemini'',
               model = Some (PStr ''gemini-pro''), usage = Some PNone, error = False\<rparr>),
           (''claude'', \<lparr>content = PStr ''Error with Claude: connection refused'',
               provider = ''claude'', model = None, usage = None, error = True\<rparr>)],
      [''mistral'', ''gemini'', ''claude''])
   \<and> deep_thinking_mode markup_env (brain_init keys_config Map.empty) ''hi'' []
   = (Inl (Exception (''closing tag '' @ quote ''[/b]'' @ '' at position 0 doesn'' @ [CHR 0x27]
                        @ ''t match any open tag'')),
      [''mistral'', ''gemini'', ''claude'', ''print''])"
  by (simp add: brain_defs adapter_defs history_defs sample_defs markup_env_def)

text \<open>
  C5. When the synthesis call itself fails, the result should carry the error flag with
  the adapter's error. \<open>deep_thinking_mode\<close> copies the content of the synthesis result
  only: with every backend refusing the connection, the result has the error text as its
  content, all three entries of the fan-out, and no error flag.
\<close>

theorem synthesis_failure_not_flagged:
  "fst (deep_thinking_mode down_env (brain_init keys_config Map.empty) ''hi'' ())
   = Inr \<lparr>content = PStr ''Error with Mistral: connection refused'', provider = ''deep_thinking'',
          model = Some (PStr ''multi-provider-synthesis''), usage = None, error = False,
          individual_responses = Some
            [(''mistral'', \<lparr>content = PStr ''Error with Mistral: connection refused'',
                provider = ''mistral'', model = None, usage = None, error = True\<rparr>),
             (''gemini'', \<lparr>content = PStr ''Error with Gemini: connection refused'',
                provider = ''gemini'', model = None, usage = None, error = True\<rparr>),
             (''claude'', \<lparr>content = PStr ''Error with Claude: connection refused'',
                provider = ''claude'', model = None, usage = None, error = True\<rparr>)]\<rparr>"
  by (simp add: brain_defs adapter_defs history_defs sample_defs)

section \<open>The session\<close>

text \<open>\<open>add_message\<close> appends one message to the current thread.\<close>

lemma add_message_history:
  "add_message E role cont prov h w = (h', w') \<Longrightarrow>
     load_history h' = load_history h @
       [\<lparr>msg_role = role, msg_content = cont, msg_provider = prov,
         msg_timestamp = fst (now_isoformat E w)\<rparr>] \<and>
     current_thread h' = current_thread h \<and> w' = snd (now_isoformat E w)"
  by (auto simp: add_message_def load_history_def save_history_def Let_def split: prod.splits)

text \<open>
  A turn that completes (the response is returned and displayed) stores the prompt and
  the answer; a turn returns a response only if it completed.
\<close>

lemma run_prompt_returns:
  assumes "generate_response E b prompt prov deep w = (Inr r, w1)"
      and "display_response E r w1 = (Returns (), w2)"
  shows "\<exists>b' w'. run_prompt E b prompt prov deep w = (Inr r, b', w') \<and>
           current_thread (history b') = current_thread (history b) \<and>
           load_history (history b') = load_history (history b) @
             [\<lparr>msg_role = ''user'', msg_content = PStr prompt, msg_provider = None,
               msg_timestamp = fst (now_isoformat E w2)\<rparr>,
              \<lparr>msg_role = ''assistant'', msg_content = content r, msg_provider = Some (provider r),
               msg_timestamp = fst (now_isoformat E (snd (now_isoformat E w2)))\<rparr>]"
proof -
  obtain h1 w3 where a1: "add_message E ''user'' (PStr prompt) None (history b) w2 = (h1, w3)"
    by (cases "add_message E ''user'' (PStr prompt) None (history b) w2") auto
  obtain h2 w4 where a2: "add_message E ''assistant'' (content r) (Some (provider r)) h1 w3 = (h2, w4)"
    by (cases "add_message E ''assistant'' (content r) (Some (provider r)) h1 w3") auto
  have r: "run_prompt E b prompt prov deep w = (Inr r, b\<lparr>history := h2\<rparr>, w4)"
    by (simp add: run_prompt_def assms a1 a2)
  from add_message_history [OF a1] add_message_history [OF a2]
  have "current_thread h2 = current_thread (history b) \<and>
        load_history h2 = load_history (history b) @
             [\<lparr>msg_role = ''user'', msg_content = PStr prompt, msg_provider = None,
               msg_timestamp = fst (now_isoformat E w2)\<rparr>,
              \<lparr>msg_role = ''assistant'', msg_content = content r, msg_provider = Some (provider r),
               msg_timestamp = fst (now_isoformat E (snd (now_isoformat E w2)))\<rparr>]"
    by simp
  with r show ?thesis by simp
qed

lemma run_prompt_Inr:
  assumes "run_prompt E b prompt prov deep w = (Inr r, b', w')"
  shows "\<exists>w1 w2. generate_response E b prompt prov deep w = (Inr r, w1) \<and>
           display_response E r w1 = (Returns (), w2)"
proof -
  obtain x w1 where g: "generate_response E b prompt prov deep w = (x, w1)"
    by (cases "generate_response E b prompt prov deep w") auto
  show ?thesis
  proof (cases x)
    case (Inl e)
    with g assms show ?thesis by (simp add: run_prompt_def)
  next
    case (Inr r')
    obtain y w2 where d: "display_response E r' w1 = (y, w2)"
      by (cases "display_response E r' w1") auto
    from g Inr d assms have "y = Returns () \<and> r' = r"
      by (cases y) (auto simp: run_prompt_def Let_def split: prod.splits)
    with g Inr d show ?thesis by auto
  qed
qed






section \<open>The marker of a synthesized turn\<close>

text \<open>
  C6, as stated: the backend identifier of a synthesized result, and of the assistant
  message stored for it, is \<open>synthesis\<close>. It is \<open>deep_thinking\<close>: a single-shot run in
  deep-thinking mode returns a result with that identifier and stores it with the
  assistant message.
\<close>

theorem synthesized_turn_marked_deep_thinking:
  "map_sum id provider (fst (run_prompt down_env (brain_init keys_config Map.empty) ''hi'' None True ()))
     = Inr ''deep_thinking''
   \<and> map msg_provider (load_history (history (fst (snd
        (run_prompt down_env (brain_init keys_config Map.empty) ''hi'' None True ())))))
     = [None, Some ''deep_thinking'']"
  by (simp add: run_prompt_def brain_defs adapter_defs history_defs sample_defs)

text \<open>
  C6, amended. The backend identifier of every result of \<open>deep_thinking_mode\<close> is the
  literal marker \<open>deep_thinking\<close>, and that marker is the \<open>provider\<close> field of the
  assistant message the single-shot run stores for a deep-thinking turn.
\<close>

theorem synthesized_turn_marker:
  "(\<forall>r w'. deep_thinking_mode E b prompt w = (Inr r, w') \<longrightarrow> provider r = ''deep_thinking'') \<and>
   (\<forall>r b' w'. run_prompt E b prompt prov True w = (Inr r, b', w') \<longrightarrow>
      provider r = ''deep_thinking'' \<and>
      (\<exists>t1 t2. load_history (history b') = load_history (history b) @
         [\<lparr>msg_role = ''user'', msg_content = PStr prompt, msg_provider = None, msg_timestamp = t1\<rparr>,
          \<lparr>msg_role = ''assistant'', msg_content = content r,
            msg_provider = Some ''deep_thinking'', msg_timestamp = t2\<rparr>]))"
proof -
  have a: "provider r = ''deep_thinking''" if "deep_thinking_mode E b prompt w = (Inr r, w')" for r w'
    using deep_thinking_mode_Inr [OF that] by auto
  have b: "provider r = ''deep_thinking'' \<and>
      (\<exists>t1 t2. load_history (history b') = load_history (history b) @
         [\<lparr>msg_role = ''user'', msg_content = PStr prompt, msg_provider = None, msg_timestamp = t1\<rparr>,
          \<lparr>msg_role = ''assistant'', msg_content = content r,
            msg_provider = Some ''deep_thinking'', msg_timestamp = t2\<rparr>])"
    if rp: "run_prompt E b prompt prov True w = (Inr r, b', w')" for r b' w'
  proof -
    from run_prompt_Inr [OF rp] obtain w1 w2 where
      g: "generate_response E b prompt prov True w = (Inr r, w1)" and
      d: "display_response E r w1 = (Returns (), w2)" by blast
    from g have "deep_thinking_mode E b prompt w = (Inr r, w1)"
      by (simp add: generate_response_def)
    then have p: "provider r = ''deep_thinking''" by (rule a)
    from run_prompt_returns [OF g d] rp p show ?thesis by auto
  qed
  from a b show ?thesis by blast
qed

theorem synthesized_turn_marker_witness:
  "(\<exists>r b'. run_prompt down_env (brain_init keys_config Map.empty) ''hi'' None True () = (Inr r, b', ())
      \<and> provider r = ''deep_thinking''
      \<and> map msg_provider (load_history (history b')) = [None, Some ''deep_thinking''])"
proof -
  obtain r b' where rp: "run_prompt down_env (brain_init keys_config Map.empty) ''hi'' None True () = (Inr r, b', ())"
    by (simp add: run_prompt_def brain_defs adapter_defs history_defs sample_defs)
  from synthesized_turn_marker [of down_env "brain_init keys_config Map.empty" "''hi''" "()" None] rp
  have "provider r = ''deep_thinking'' \<and>
        map msg_provider (load_history (history b')) = [None, Some ''deep_thinking'']"
    by (auto simp: brain_init_def load_history_def)
  then have p: "provider r = ''deep_thinking''"
    and m: "map msg_provider (load_history (history b')) = [None, Some ''deep_thinking'']"
    by (rule conjunct1, rule conjunct2)
  show ?thesis
    apply (rule exI [of _ r], rule exI [of _ b'], intro conjI)
      apply (rule rp)
     apply (rule p)
    apply (rule m)
    done
qed

end
